theory Spec2Isabelle
  imports Main "HOL-Library.Sublist"
begin

section \<open>WebflowStyles: a shallow embedding of \<open>src/index.ts\<close>\<close>

text \<open>
  The extension is four functions and one start-up handler. They talk to two
  collaborators: the page (the controls and the feedback region) and the host object
  \<open>webflow\<close>. Both are made explicit here: the values read from the controls are
  arguments, the host is a record of the outcomes its calls have, and everything the
  code does to either of them is written to a chronological log.

  The compiled \<open>public/index.js\<close> has the same statements in the same order.
  JavaScript strings are modelled as \<open>string\<close>; no function here tells two
  characters apart other than by equality and, in the colour pattern, by the hex digits.
\<close>

subsection \<open>The colour pattern of \<open>getFontColorValue\<close>\<close>

text \<open>
  The source tests the hex input with the regular expression literal
  \<^verbatim>\<open>/^#([A-Fa-f0-9]{6}|[A-Fa-f0-9]{3})$/\<close>. The constructs that occur in it are a
  literal character, a character class of ranges, sequence, alternation and the
  counted repetition \<^verbatim>\<open>{n}\<close>.
\<close>

datatype regex =
    Lit char
  | Class "(char \<times> char) list"
  | Seq regex regex
  | Alt regex regex
  | Times nat regex

text \<open>A class matches a character whose code lies in one of its ranges.\<close>

definition in_range :: "char \<Rightarrow> char \<times> char \<Rightarrow> bool" where
  "in_range c r = ((of_char (fst r) :: nat) \<le> of_char c \<and> (of_char c :: nat) \<le> of_char (snd r))"

definition in_class :: "(char \<times> char) list \<Rightarrow> char \<Rightarrow> bool" where
  "in_class rs c = list_ex (in_range c) rs"

text \<open>
  The matcher is the backtracking one of a JavaScript engine, with the alternatives
  kept in their order of preference: \<open>rmatch r s\<close> lists what is left of \<open>s\<close> after
  each way of matching \<open>r\<close> at its start.
\<close>

primrec iter :: "nat \<Rightarrow> (string \<Rightarrow> string list) \<Rightarrow> string \<Rightarrow> string list" where
  "iter 0 m s = [s]"
| "iter (Suc n) m s = concat (map (iter n m) (m s))"

primrec rmatch :: "regex \<Rightarrow> string \<Rightarrow> string list" where
  "rmatch (Lit a) s = (case s of [] \<Rightarrow> [] | c # cs \<Rightarrow> if c = a then [cs] else [])"
| "rmatch (Class rs) s = (case s of [] \<Rightarrow> [] | c # cs \<Rightarrow> if in_class rs c then [cs] else [])"
| "rmatch (Seq r1 r2) s = concat (map (rmatch r2) (rmatch r1 s))"
| "rmatch (Alt r1 r2) s = rmatch r1 s @ rmatch r2 s"
| "rmatch (Times n r) s = iter n (rmatch r) s"

text \<open>
  \<open>test\<close> is \<^verbatim>\<open>/^r$/.test(s)\<close>: without the \<^verbatim>\<open>m\<close> flag \<^verbatim>\<open>^\<close> holds at the start of
  the input only and \<^verbatim>\<open>$\<close> at its end only, so the pattern has to use up all of \<open>s\<close>.
\<close>

definition test :: "regex \<Rightarrow> string \<Rightarrow> bool" where
  "test r s = ([] \<in> set (rmatch r s))"

definition hex_class :: "(char \<times> char) list" where
  "hex_class = [(CHR ''A'', CHR ''F''), (CHR ''a'', CHR ''f''), (CHR ''0'', CHR ''9'')]"

definition hex_pattern :: regex where
  "hex_pattern =
     Seq (Lit (CHR ''#'')) (Alt (Times 6 (Class hex_class)) (Times 3 (Class hex_class)))"

text \<open>
  Modelled from the spec: the markup of the page is a file of the repository that is not
  among the sources. Section 6 of the specification lists the element ids the page
  provides: the five controls below and the feedback region. So a lookup of one of them
  yields an element, and what the handlers read from the page is the \<open>value\<close> of each
  control at the time of the click. For one of them, the family dropdown, the source
  itself allows that it is missing (it fills it through \<open>?.\<close>): whether it exists is
  part of the state of the extension below, and \<open>fontFamilyDropdown_value\<close> is what it
  holds when it exists.
\<close>

record controls =
  fontSizeDropdown_value :: string
  fontColorHex_value :: string
  fontColorDropdown_value :: string
  fontFamilyDropdown_value :: string
  comboClassInput_value :: string

text \<open>
  \<open>getFontColorValue\<close>: the hex input when it is truthy (a non-empty string) and
  matches the pattern, the value of the colour dropdown otherwise.
\<close>

definition getFontColorValue :: "controls \<Rightarrow> string" where
  "getFontColorValue inputs =
     (if fontColorHex_value inputs \<noteq> [] \<and> test hex_pattern (fontColorHex_value inputs)
      then fontColorHex_value inputs
      else fontColorDropdown_value inputs)"

text \<open>
  The strings the specification calls valid hex colours, spelt out: a \<open>#\<close> followed
  by exactly six or exactly three hex digits, upper or lower case.
\<close>

definition hex_digit :: "char \<Rightarrow> bool" where
  "hex_digit c = (c \<in> set ''ABCDEFabcdef0123456789'')"

definition valid_hex :: "string \<Rightarrow> bool" where
  "valid_hex s = (case s of [] \<Rightarrow> False
                  | c # ds \<Rightarrow> c = CHR ''#'' \<and> (length ds = 6 \<or> length ds = 3) \<and> list_all hex_digit ds)"

subsection \<open>Values that are thrown\<close>

text \<open>
  What a host call throws, or rejects its promise with, is an \<open>Error\<close> object: a
  name and a message. The template literals of the source turn it into text with
  \<open>Error.prototype.toString\<close>.
\<close>

datatype js_error = JsError (error_name: string) (error_message: string)

definition error_toString :: "js_error \<Rightarrow> string" where
  "error_toString e =
     (if error_name e = [] then error_message e
      else if error_message e = [] then error_name e
      else error_name e @ '': '' @ error_message e)"

subsection \<open>The host object model\<close>

text \<open>
  The host is not part of the repository. An object of the host is modelled by the outcome
  each of its methods has when the code calls it: \<open>Inl e\<close> when the call throws \<open>e\<close>
  (or returns a promise that rejects with \<open>e\<close> and is awaited), \<open>Inr v\<close> when it
  yields \<open>v\<close>.
\<close>

type_synonym style_object = "(string \<times> string) list"

record style =
  getName :: "js_error + string"
  setProperties :: "js_error + unit"
  style_save :: "js_error + unit"

text \<open>
  What \<open>getStyles()\<close> hands back: the array itself, or a promise that will settle
  with the array (the interface \<open>Element\<close> of the source declares the latter).
\<close>

datatype collection = Array "style list" | Promise "js_error + style list"

record element =
  styles :: "style list option"
  getStyles :: "js_error + collection"
  setStyles :: "js_error + unit"
  element_save :: "js_error + unit"

record webflow =
  getSelectedElement :: "js_error + element option"
  createStyle :: "string \<Rightarrow> js_error + style"

subsection \<open>The page and the log\<close>

datatype feedback_type = Error | Success

datatype event =
    Call_getSelectedElement
  | Call_createStyle string
  | Call_setProperties style style_object
  | Call_style_save style
  | Read_styles element
  | Call_setStyles element "style list"
  | Call_element_save element
  | Call_getStyles element
  | Call_getName style
  | Call_applyStyles style_object string
  | Feedback string feedback_type

text \<open>
  Modelled from the spec: the element \<open>feedbackMessage\<close> is one of the ids the page
  provides (section 6), so \<open>displayFeedback\<close> always finds it. The state the functions
  act on is the text and the colour of that element, and the log of the calls made so far,
  oldest first.
\<close>

record world =
  textContent :: string
  color :: string
  trace :: "event list"

definition emit :: "event \<Rightarrow> world \<Rightarrow> world" where
  "emit ev w = w\<lparr>trace := trace w @ [ev]\<rparr>"

definition displayFeedback :: "string \<Rightarrow> feedback_type \<Rightarrow> world \<Rightarrow> world" where
  "displayFeedback msg ty w =
     emit (Feedback msg ty)
       (w\<lparr>textContent := msg, color := (if ty = Error then ''red'' else ''green'')\<rparr>)"

subsection \<open>\<open>applyStyles\<close>\<close>

text \<open>
  The body of the \<open>try\<close> block, statement by statement. \<open>Inl e\<close> is control leaving
  the block with \<open>e\<close> thrown. The test \<open>if (selectedElement.styles)\<close> is on the
  truthiness of the property: an array, also an empty one, is truthy, \<open>undefined\<close> is
  not.
\<close>

definition applyStyles_try ::
  "webflow \<Rightarrow> element \<Rightarrow> style_object \<Rightarrow> string \<Rightarrow> world \<Rightarrow> (js_error + unit) \<times> world" where
  "applyStyles_try host selectedElement styleObject styleName w =
     (let w1 = emit (Call_createStyle styleName) w in
      (case createStyle host styleName of
         Inl e \<Rightarrow> (Inl e, w1)
       | Inr myStyle \<Rightarrow>
          (let w2 = emit (Call_setProperties myStyle styleObject) w1 in
           (case setProperties myStyle of
              Inl e \<Rightarrow> (Inl e, w2)
            | Inr u \<Rightarrow>
               (let w3 = emit (Call_style_save myStyle) w2 in
                (case style_save myStyle of
                   Inl e \<Rightarrow> (Inl e, w3)
                 | Inr u \<Rightarrow>
                    (let w4 = emit (Read_styles selectedElement) w3 in
                     (case styles selectedElement of
                        None \<Rightarrow> (Inr (), w4)
                      | Some sts \<Rightarrow>
                         (let w5 = emit (Call_setStyles selectedElement [myStyle]) w4 in
                          (case setStyles selectedElement of
                             Inl e \<Rightarrow> (Inl e, w5)
                           | Inr u \<Rightarrow>
                              (let w6 = emit (Call_element_save selectedElement) w5 in
                               (case element_save selectedElement of
                                  Inl e \<Rightarrow> (Inl e, w6)
                                | Inr u \<Rightarrow>
                                   (Inr (), displayFeedback ''Styles successfully applied!''
                                              Success w6)))))))))))))"

text \<open>
  The result is how the promise of the \<open>async\<close> function settles: \<open>Inr ()\<close>
  resolved, \<open>Inl e\<close> rejected. The first \<open>await\<close> is outside the \<open>try\<close>, so a
  rejection of \<open>getSelectedElement\<close> rejects the promise.
\<close>

definition applyStyles ::
  "webflow \<Rightarrow> style_object \<Rightarrow> string \<Rightarrow> world \<Rightarrow> (js_error + unit) \<times> world" where
  "applyStyles host styleObject styleName w =
     (let w1 = emit Call_getSelectedElement w in
      (case getSelectedElement host of
         Inl e \<Rightarrow> (Inl e, w1)
       | Inr None \<Rightarrow> (Inr (), displayFeedback ''No element is currently selected.'' Error w1)
       | Inr (Some selectedElement) \<Rightarrow>
          (case applyStyles_try host selectedElement styleObject styleName w1 of
             (Inr u, w2) \<Rightarrow> (Inr (), w2)
           | (Inl error, w2) \<Rightarrow>
               (Inr (), displayFeedback (''Error applying styles: '' @ error_toString error)
                          Error w2))))"

subsection \<open>\<open>checkComboClass\<close>\<close>

text \<open>
  \<open>styles.some(style => style.getName() === comboClassName)\<close>: the array is
  walked from the front and the walk stops at the first hit.
\<close>

fun some_getName :: "style list \<Rightarrow> string \<Rightarrow> world \<Rightarrow> (js_error + bool) \<times> world" where
  "some_getName [] comboClassName w = (Inr False, w)"
| "some_getName (st # sts) comboClassName w =
     (let w1 = emit (Call_getName st) w in
      (case getName st of
         Inl e \<Rightarrow> (Inl e, w1)
       | Inr nm \<Rightarrow>
          (if nm = comboClassName then (Inr True, w1) else some_getName sts comboClassName w1)))"

text \<open>
  The source does not await what \<open>getStyles()\<close> returns. A promise has no method
  \<open>some\<close>, so calling it throws a \<open>TypeError\<close> (the message is the one of V8).
\<close>

definition not_a_function :: js_error where
  "not_a_function = JsError ''TypeError'' ''styles.some is not a function''"

definition quote :: "string \<Rightarrow> string" where
  "quote s = [CHR 0x22] @ s @ [CHR 0x22]"

definition checkComboClass_try ::
  "element \<Rightarrow> string \<Rightarrow> world \<Rightarrow> (js_error + unit) \<times> world" where
  "checkComboClass_try selectedElement comboClassName w =
     (let w1 = emit (Call_getStyles selectedElement) w in
      (case getStyles selectedElement of
         Inl e \<Rightarrow> (Inl e, w1)
       | Inr (Promise p) \<Rightarrow> (Inl not_a_function, w1)
       | Inr (Array sts) \<Rightarrow>
          (case some_getName sts comboClassName w1 of
             (Inl e, w2) \<Rightarrow> (Inl e, w2)
           | (Inr hasComboClass, w2) \<Rightarrow>
              (if hasComboClass
               then (Inr (), displayFeedback (''Combo class '' @ quote comboClassName @ '' exists.'')
                               Success w2)
               else (Inr (), displayFeedback
                               (''Combo class '' @ quote comboClassName @ '' does not exist.'')
                               Error w2)))))"

definition checkComboClass :: "webflow \<Rightarrow> string \<Rightarrow> world \<Rightarrow> (js_error + unit) \<times> world" where
  "checkComboClass host comboClassName w =
     (let w1 = emit Call_getSelectedElement w in
      (case getSelectedElement host of
         Inl e \<Rightarrow> (Inl e, w1)
       | Inr None \<Rightarrow> (Inr (), displayFeedback ''No element is currently selected.'' Error w1)
       | Inr (Some selectedElement) \<Rightarrow>
          (case checkComboClass_try selectedElement comboClassName w1 of
             (Inr u, w2) \<Rightarrow> (Inr (), w2)
           | (Inl error, w2) \<Rightarrow>
               (Inr (), displayFeedback
                          (''Error checking for combo class: '' @ error_toString error)
                          Error w2))))"

subsection \<open>\<open>populateFontFamilyDropdown\<close>\<close>

record html_option =
  option_value :: string
  option_textContent :: string

definition fonts :: "string list" where
  "fonts = [''Arial'', ''Verdana'', ''Helvetica'', ''Times New Roman'', ''Georgia'', ''Courier New'']"

definition createOption :: "string \<Rightarrow> html_option" where
  "createOption font = \<lparr>option_value = font, option_textContent = font\<rparr>"

text \<open>
  The argument is the list of children of the element \<open>fontFamilyDropdown\<close>, \<open>None\<close>
  when the page has no such element: the source appends with \<open>?.\<close>, which does
  nothing then.
\<close>

definition populateFontFamilyDropdown :: "html_option list option \<Rightarrow> html_option list option" where
  "populateFontFamilyDropdown fontFamilyDropdown =
     foldl (\<lambda>dropdown font.
              (let opt = createOption font
               in (case dropdown of None \<Rightarrow> None | Some children \<Rightarrow> Some (children @ [opt]))))
       fontFamilyDropdown fonts"

subsection \<open>Handlers in flight\<close>

text \<open>
  An \<open>async\<close> function runs until its next \<open>await\<close>, hands control back and goes on
  when the awaited promise has settled; in between, other handlers run. A task is what
  is left of a call that waits: \<open>applyStyles\<close> waits at \<open>getSelectedElement()\<close>, at
  \<open>myStyle.save()\<close> and at \<open>selectedElement.save()\<close>, \<open>checkComboClass\<close> at
  \<open>getSelectedElement()\<close> only. The call that made the promise is in the log already
  when the task waits, and a call that fails is taken to hand back a promise that rejects,
  so that the \<open>catch\<close> block runs when the task is resumed.
\<close>

datatype task =
    Apply_at_selection webflow style_object string
  | Apply_at_style_save element style
  | Apply_at_element_save element
  | Check_at_selection webflow string

datatype progress = Suspended task | Settled "js_error + unit"

text \<open>The \<open>catch\<close> block of \<open>applyStyles\<close>.\<close>

definition applyStyles_catch :: "js_error \<Rightarrow> world \<Rightarrow> progress \<times> world" where
  "applyStyles_catch error w =
     (Settled (Inr ()), displayFeedback (''Error applying styles: '' @ error_toString error) Error w)"

text \<open>
  \<open>resume\<close> runs a waiting task from the settled promise to the next \<open>await\<close> or to
  the end of the function; the statements are those of \<open>applyStyles\<close> and
  \<open>checkComboClass\<close> above, cut at the awaits.
\<close>

fun resume :: "task \<Rightarrow> world \<Rightarrow> progress \<times> world" where
  "resume (Apply_at_selection host styleObject styleName) w =
     (case getSelectedElement host of
        Inl e \<Rightarrow> (Settled (Inl e), w)
      | Inr None \<Rightarrow>
          (Settled (Inr ()), displayFeedback ''No element is currently selected.'' Error w)
      | Inr (Some selectedElement) \<Rightarrow>
         (let w1 = emit (Call_createStyle styleName) w in
          (case createStyle host styleName of
             Inl e \<Rightarrow> applyStyles_catch e w1
           | Inr myStyle \<Rightarrow>
              (let w2 = emit (Call_setProperties myStyle styleObject) w1 in
               (case setProperties myStyle of
                  Inl e \<Rightarrow> applyStyles_catch e w2
                | Inr u \<Rightarrow>
                   (Suspended (Apply_at_style_save selectedElement myStyle),
                    emit (Call_style_save myStyle) w2))))))"
| "resume (Apply_at_style_save selectedElement myStyle) w =
     (case style_save myStyle of
        Inl e \<Rightarrow> applyStyles_catch e w
      | Inr u \<Rightarrow>
         (let w4 = emit (Read_styles selectedElement) w in
          (case styles selectedElement of
             None \<Rightarrow> (Settled (Inr ()), w4)
           | Some sts \<Rightarrow>
              (let w5 = emit (Call_setStyles selectedElement [myStyle]) w4 in
               (case setStyles selectedElement of
                  Inl e \<Rightarrow> applyStyles_catch e w5
                | Inr u \<Rightarrow>
                   (Suspended (Apply_at_element_save selectedElement),
                    emit (Call_element_save selectedElement) w5))))))"
| "resume (Apply_at_element_save selectedElement) w =
     (case element_save selectedElement of
        Inl e \<Rightarrow> applyStyles_catch e w
      | Inr u \<Rightarrow> (Settled (Inr ()), displayFeedback ''Styles successfully applied!'' Success w))"
| "resume (Check_at_selection host comboClassName) w =
     (case getSelectedElement host of
        Inl e \<Rightarrow> (Settled (Inl e), w)
      | Inr None \<Rightarrow>
          (Settled (Inr ()), displayFeedback ''No element is currently selected.'' Error w)
      | Inr (Some selectedElement) \<Rightarrow>
         (case checkComboClass_try selectedElement comboClassName w of
            (Inr u, w2) \<Rightarrow> (Settled (Inr ()), w2)
          | (Inl error, w2) \<Rightarrow>
              (Settled (Inr ()), displayFeedback
                 (''Error checking for combo class: '' @ error_toString error) Error w2)))"

text \<open>
  A task resumed again and again, with nothing else in between, up to \<open>n\<close> times;
  \<open>None\<close> when it still waits after that.
\<close>

fun finish :: "nat \<Rightarrow> task \<Rightarrow> world \<Rightarrow> ((js_error + unit) \<times> world) option" where
  "finish 0 t w = None"
| "finish (Suc n) t w =
     (case resume t w of
        (Settled r, w1) \<Rightarrow> Some (r, w1)
      | (Suspended t1, w1) \<Rightarrow> finish n t1 w1)"

subsection \<open>Start-up and the click handlers\<close>

text \<open>
  \<open>styleCounter\<close> is a JavaScript number that only ever holds a natural number.
  \<open>styleCounter++\<close> adds one in double precision: exact below \<open>2^53\<close>, and at
  \<open>2^53\<close> the sum rounds back to \<open>2^53\<close>.
\<close>

definition increment :: "nat \<Rightarrow> nat" where
  "increment n = (if n < 2 ^ 53 then n + 1 else n)"

text \<open>The decimal text of a natural number, as a template literal prints it.\<close>

definition digit :: "nat \<Rightarrow> char" where
  "digit d = ''0123456789'' ! d"

fun number_toString :: "nat \<Rightarrow> string" where
  "number_toString n =
     (if n < 10 then [digit n] else number_toString (n div 10) @ [digit (n mod 10)])"

declare number_toString.simps [simp del]

definition styleName_of :: "nat \<Rightarrow> string" where
  "styleName_of n = ''dynamicStyle'' @ number_toString n"

text \<open>
  The running extension: the counter, the children of the element
  \<open>fontFamilyDropdown\<close> (\<open>None\<close> when the page has no such element), the page, and the
  handlers that wait for the host, oldest first.
\<close>

record app =
  styleCounter :: nat
  fontFamilyOptions :: "html_option list option"
  page :: world
  pending :: "task list"

text \<open>
  The handler of \<open>DOMContentLoaded\<close>. Its arguments are the children of the family
  dropdown and the feedback region as the markup has them; the log starts empty and no
  handler waits.
\<close>

definition DOMContentLoaded :: "html_option list option \<Rightarrow> world \<Rightarrow> app" where
  "DOMContentLoaded fontFamilyDropdown w =
     \<lparr>styleCounter = 0,
      fontFamilyOptions = populateFontFamilyDropdown fontFamilyDropdown,
      page = w\<lparr>trace := []\<rparr>,
      pending = []\<rparr>"

text \<open>
  Reading \<open>.value\<close> of the \<open>null\<close> that \<open>getElementById\<close> returns for a missing
  element throws a \<open>TypeError\<close> (the message is the one of V8).
\<close>

definition value_of_null :: js_error where
  "value_of_null =
     JsError ''TypeError''
       (''Cannot read properties of null (reading '' @ [CHR 0x27] @ ''value'' @ [CHR 0x27] @ '')'')"

text \<open>
  The click handler of \<open>submitStyles\<close>, up to its \<open>await\<close>. It reads the font size,
  resolves the colour and reads the font family; the source guards the family dropdown
  with \<open>?.\<close> when it fills it, so the element may be missing, and then this read throws and
  the handler ends there, before the counter is touched. Otherwise the name is made from
  the counter, the counter is stepped, and \<open>applyStyles\<close> is called: the call is
  written to the log with its two arguments, it calls \<open>getSelectedElement()\<close> and waits.
  \<open>Inl e\<close> is the handler rejected with \<open>e\<close>, \<open>Inr t\<close> the task that waits.
\<close>

definition submit_click :: "controls \<Rightarrow> webflow \<Rightarrow> app \<Rightarrow> (js_error + task) \<times> app" where
  "submit_click inputs host a =
     (let fontSize = fontSizeDropdown_value inputs;
          fontColor = getFontColorValue inputs
      in (case fontFamilyOptions a of
            None \<Rightarrow> (Inl value_of_null, a)
          | Some children \<Rightarrow>
             (let fontFamily = fontFamilyDropdown_value inputs;
                  styleName = styleName_of (styleCounter a);
                  a1 = a\<lparr>styleCounter := increment (styleCounter a)\<rparr>;
                  styleObject =
                    [(''font-size'', fontSize), (''color'', fontColor), (''font-family'', fontFamily)];
                  w = emit Call_getSelectedElement
                        (emit (Call_applyStyles styleObject styleName) (page a1))
              in (Inr (Apply_at_selection host styleObject styleName), a1\<lparr>page := w\<rparr>))))"

text \<open>The click handler of \<open>checkComboClass\<close>, up to its \<open>await\<close>.\<close>

definition check_click :: "controls \<Rightarrow> webflow \<Rightarrow> app \<Rightarrow> (js_error + task) \<times> app" where
  "check_click inputs host a =
     (let comboClassName = comboClassInput_value inputs;
          w = emit Call_getSelectedElement (page a)
      in (Inr (Check_at_selection host comboClassName), a\<lparr>page := w\<rparr>))"

text \<open>
  A session is what the event loop serves after start-up, one turn at a time: a click on
  one of the two buttons, with the values the controls hold and the host that answers this
  handler's calls, or the host settling the promise that one of the waiting handlers awaits
  (\<open>Settle i\<close>, counting the waiting handlers from 0). Handlers overlap: a click may be
  served while earlier handlers wait, and they are resumed in any order.
\<close>

datatype turn = Submit controls webflow | Check controls webflow | Settle nat

definition start :: "(js_error + task) \<times> app \<Rightarrow> app" where
  "start h = (case h of (Inl e, a) \<Rightarrow> a | (Inr t, a) \<Rightarrow> a\<lparr>pending := pending a @ [t]\<rparr>)"

fun serve :: "turn \<Rightarrow> app \<Rightarrow> app" where
  "serve (Submit inputs host) a = start (submit_click inputs host a)"
| "serve (Check inputs host) a = start (check_click inputs host a)"
| "serve (Settle i) a =
     (if i < length (pending a)
      then (case resume (pending a ! i) (page a) of
              (Settled r, w) \<Rightarrow>
                a\<lparr>page := w, pending := take i (pending a) @ drop (Suc i) (pending a)\<rparr>
            | (Suspended t, w) \<Rightarrow> a\<lparr>page := w, pending := (pending a)[i := t]\<rparr>)
      else a)"

fun run :: "turn list \<Rightarrow> app \<Rightarrow> app" where
  "run [] a = a"
| "run (t # ts) a = run ts (serve t a)"

fun count_submits :: "turn list \<Rightarrow> nat" where
  "count_submits [] = 0"
| "count_submits (Submit inputs host # ts) = Suc (count_submits ts)"
| "count_submits (t # ts) = count_submits ts"

text \<open>Readings of the log.\<close>

fun feedbacks :: "event list \<Rightarrow> (string \<times> feedback_type) list" where
  "feedbacks [] = []"
| "feedbacks (Feedback msg ty # evs) = (msg, ty) # feedbacks evs"
| "feedbacks (ev # evs) = feedbacks evs"

fun styleNames :: "event list \<Rightarrow> string list" where
  "styleNames [] = []"
| "styleNames (Call_applyStyles styleObject styleName # evs) = styleName # styleNames evs"
| "styleNames (ev # evs) = styleNames evs"

definition successful_applies :: "event list \<Rightarrow> nat" where
  "successful_applies evs =
     length (filter (\<lambda>ev. ev = Feedback ''Styles successfully applied!'' Success) evs)"

text \<open>What a call has appended to the log of \<open>w\<close> when it leaves \<open>w'\<close>.\<close>

definition added :: "world \<Rightarrow> world \<Rightarrow> event list" where
  "added w w' = drop (length (trace w)) (trace w')"

subsection \<open>Test doubles\<close>

text \<open>
  Concrete hosts, elements and inputs, on which the theorems below are instantiated: a
  style handle whose calls all succeed, an element with and one without the property
  \<open>styles\<close>, a host with a given selection, and a host whose style cannot be saved.
\<close>

definition blank :: world where
  "blank = \<lparr>textContent = [], color = [], trace = []\<rparr>"

definition red_arial :: style_object where
  "red_arial = [(''font-size'', ''16px''), (''color'', ''#FF0000''), (''font-family'', ''Arial'')]"

definition new_style :: "string \<Rightarrow> style" where
  "new_style nm = \<lparr>getName = Inr nm, setProperties = Inr (), style_save = Inr ()\<rparr>"

definition styled_element :: element where
  "styled_element =
     \<lparr>styles = Some [new_style ''hero''],
      getStyles = Inr (Promise (Inr [new_style ''hero''])),
      setStyles = Inr (), element_save = Inr ()\<rparr>"

definition plain_element :: element where
  "plain_element =
     \<lparr>styles = None, getStyles = Inr (Promise (Inr [])),
      setStyles = Inr (), element_save = Inr ()\<rparr>"

definition host_selecting :: "element option \<Rightarrow> webflow" where
  "host_selecting sel =
     \<lparr>getSelectedElement = Inr sel, createStyle = (\<lambda>nm. Inr (new_style nm))\<rparr>"

definition quota_exceeded :: js_error where
  "quota_exceeded = JsError ''Error'' ''quota exceeded''"

definition unsaved_style :: style where
  "unsaved_style =
     \<lparr>getName = Inr ''dynamicStyle0'', setProperties = Inr (), style_save = Inl quota_exceeded\<rparr>"

definition host_quota :: webflow where
  "host_quota =
     \<lparr>getSelectedElement = Inr (Some styled_element), createStyle = (\<lambda>nm. Inr unsaved_style)\<rparr>"

definition picked :: controls where
  "picked = \<lparr>fontSizeDropdown_value = ''16px'', fontColorHex_value = ''#FF0000'',
      fontColorDropdown_value = ''blue'', fontFamilyDropdown_value = ''Arial'',
      comboClassInput_value = ''hero''\<rparr>"

definition the_round :: "turn list" where
  "the_round = [Submit picked (host_selecting None), Settle 0]"

definition overlapping :: "turn list" where
  "overlapping =
     [Submit picked (host_selecting (Some styled_element)),
      Submit picked (host_selecting None),
      Settle 1,
      Check picked (host_selecting (Some styled_element)),
      Settle 0,
      Settle 1,
      Settle 0,
      Settle 0]"

section \<open>Properties\<close>

subsection \<open>The colour resolver\<close>

lemma iter_Class:
  "iter n (rmatch (Class rs)) s =
     (if n \<le> length s \<and> list_all (in_class rs) (take n s) then [drop n s] else [])"
  by (induction n arbitrary: s) (auto split: list.splits)

lemma char_by_code: "(of_char c :: nat) = of_char d \<Longrightarrow> c = d"
  by simp

lemma in_class_hex: "in_class hex_class c = hex_digit c"
proof
  assume "hex_digit c"
  then show "in_class hex_class c"
    by (auto simp add: hex_digit_def in_class_def in_range_def hex_class_def)
next
  define n :: nat where "n = of_char c"
  assume "in_class hex_class c"
  then have "65 \<le> n \<and> n \<le> 70 \<or> 97 \<le> n \<and> n \<le> 102 \<or> 48 \<le> n \<and> n \<le> 57"
    by (auto simp add: in_class_def in_range_def hex_class_def n_def)
  then have "n \<in> {65, 66, 67, 68, 69, 70, 97, 98, 99, 100, 101, 102,
      48, 49, 50, 51, 52, 53, 54, 55, 56, 57}"
    by simp arith
  then have "n \<in> of_char ` set ''ABCDEFabcdef0123456789''"
    by simp
  then obtain d where d: "d \<in> set ''ABCDEFabcdef0123456789''" and "n = of_char d"
    by blast
  then have "c = d"
    unfolding n_def by (intro char_by_code)
  with d show "hex_digit c"
    by (simp only: hex_digit_def)
qed

lemma test_hex_pattern: "test hex_pattern s = valid_hex s"
proof (cases s)
  case Nil
  then show ?thesis by (simp add: test_def hex_pattern_def valid_hex_def)
next
  case (Cons c ds)
  have len: "\<And>n. (n \<le> length ds \<and> drop n ds = []) = (length ds = n)"
    by auto
  have cls: "in_class hex_class = hex_digit"
    by (rule ext) (rule in_class_hex)
  show ?thesis
    unfolding Cons test_def hex_pattern_def valid_hex_def
    by (auto simp: iter_Class len cls)
qed

lemma valid_hex_nonempty: "valid_hex s \<Longrightarrow> s \<noteq> []"
  by (auto simp: valid_hex_def)

text \<open>
  Claim C5. For every hex input and dropdown value: a hex input that is non-empty and
  matches the pattern, that is a \<open>#\<close> followed by exactly six or exactly three hex
  digits, is returned verbatim; every other hex input, the empty one included, yields the
  dropdown value unchanged, also when that is empty. The function is total: it returns a
  string in every case and has no way to raise.
\<close>

theorem getFontColorValue_resolves:
  "getFontColorValue \<lparr>fontSizeDropdown_value = fontSize, fontColorHex_value = hexInput,
      fontColorDropdown_value = dropdownValue, fontFamilyDropdown_value = fontFamily,
      comboClassInput_value = comboClassName\<rparr> =
     (if valid_hex hexInput then hexInput else dropdownValue)
   \<and> valid_hex hexInput = (hexInput \<noteq> [] \<and> test hex_pattern hexInput)"
  using valid_hex_nonempty [of hexInput]
  by (auto simp add: getFontColorValue_def test_hex_pattern)

theorem getFontColorValue_resolves_witness:
  "getFontColorValue \<lparr>fontSizeDropdown_value = ''16px'', fontColorHex_value = ''#FF0000'',
      fontColorDropdown_value = ''blue'', fontFamilyDropdown_value = ''Arial'',
      comboClassInput_value = ''''\<rparr> = ''#FF0000''
   \<and> getFontColorValue \<lparr>fontSizeDropdown_value = ''16px'', fontColorHex_value = ''#fff'',
      fontColorDropdown_value = ''blue'', fontFamilyDropdown_value = ''Arial'',
      comboClassInput_value = ''''\<rparr> = ''#fff''
   \<and> getFontColorValue \<lparr>fontSizeDropdown_value = ''16px'', fontColorHex_value = ''#FF00'',
      fontColorDropdown_value = ''blue'', fontFamilyDropdown_value = ''Arial'',
      comboClassInput_value = ''''\<rparr> = ''blue''
   \<and> getFontColorValue \<lparr>fontSizeDropdown_value = ''16px'', fontColorHex_value = ''#GGG'',
      fontColorDropdown_value = ''blue'', fontFamilyDropdown_value = ''Arial'',
      comboClassInput_value = ''''\<rparr> = ''blue''
   \<and> getFontColorValue \<lparr>fontSizeDropdown_value = ''16px'', fontColorHex_value = '''',
      fontColorDropdown_value = '''', fontFamilyDropdown_value = ''Arial'',
      comboClassInput_value = ''''\<rparr> = ''''"
  using getFontColorValue_resolves [of "''16px''" "''#FF0000''" "''blue''" "''Arial''" "''''"]
    getFontColorValue_resolves [of "''16px''" "''#fff''" "''blue''" "''Arial''" "''''"]
    getFontColorValue_resolves [of "''16px''" "''#FF00''" "''blue''" "''Arial''" "''''"]
    getFontColorValue_resolves [of "''16px''" "''#GGG''" "''blue''" "''Arial''" "''''"]
    getFontColorValue_resolves [of "''16px''" "''''" "''''" "''Arial''" "''''"]
  by (simp add: valid_hex_def hex_digit_def)

subsection \<open>Number printing, names and what a call adds to the log\<close>

lemmas apply_defs = applyStyles_def applyStyles_try_def emit_def displayFeedback_def

lemma digit_code:
  assumes "k < 10"
  shows "(of_char (digit k) :: nat) = 48 + k"
proof -
  from assms have "k \<in> {0, 1, 2, 3, 4, 5, 6, 7, 8, 9}" by auto
  then show ?thesis by (auto simp: digit_def)
qed

lemma digit_inj:
  assumes "d < 10" and "d' < 10" and "digit d = digit d'"
  shows "d = d'"
proof -
  have "48 + d = (of_char (digit d) :: nat)" using assms(1) by (simp add: digit_code)
  also have "\<dots> = of_char (digit d')" using assms(3) by simp
  also have "\<dots> = 48 + d'" using assms(2) by (simp add: digit_code)
  finally show ?thesis by simp
qed

lemma number_toString_nonempty: "number_toString n \<noteq> []"
  by (subst number_toString.simps) simp

lemma number_toString_inj: "number_toString m = number_toString n \<Longrightarrow> m = n"
proof (induction m arbitrary: n rule: number_toString.induct)
  case (1 m)
  show ?case
  proof (cases "m < 10")
    case small_m: True
    show ?thesis
    proof (cases "n < 10")
      case True
      with small_m "1.prems" show ?thesis
        by (simp add: number_toString.simps [of m] number_toString.simps [of n] digit_inj)
    next
      case False
      with small_m "1.prems" number_toString_nonempty [of "n div 10"] show ?thesis
        by (simp add: number_toString.simps [of m] number_toString.simps [of n])
    qed
  next
    case big_m: False
    show ?thesis
    proof (cases "n < 10")
      case True
      with big_m "1.prems" number_toString_nonempty [of "m div 10"] show ?thesis
        by (simp add: number_toString.simps [of m] number_toString.simps [of n])
    next
      case False
      with big_m "1.prems" have heads: "number_toString (m div 10) = number_toString (n div 10)"
        and lasts: "digit (m mod 10) = digit (n mod 10)"
        by (simp_all add: number_toString.simps [of m] number_toString.simps [of n])
      from big_m heads have "m div 10 = n div 10" by (rule "1.IH")
      moreover from lasts have "m mod 10 = n mod 10" by (intro digit_inj) simp_all
      ultimately show ?thesis by (metis div_mult_mod_eq)
    qed
  qed
qed

lemma styleName_of_inj: "styleName_of m = styleName_of n \<Longrightarrow> m = n"
  by (simp add: styleName_of_def number_toString_inj)

lemma styleNames_append: "styleNames (xs @ ys) = styleNames xs @ styleNames ys"
  by (induction xs rule: styleNames.induct) simp_all

lemma feedbacks_append: "feedbacks (xs @ ys) = feedbacks xs @ feedbacks ys"
  by (induction xs rule: feedbacks.induct) simp_all

lemma applyStyles_styleNames:
  "styleNames (trace (snd (applyStyles host styleObject styleName w))) = styleNames (trace w)"
  by (simp add: apply_defs Let_def styleNames_append split: sum.splits option.splits prod.splits)

lemma some_getName_styleNames:
  "styleNames (trace (snd (some_getName sts nm w))) = styleNames (trace w)"
  by (induction sts nm w rule: some_getName.induct)
     (simp_all add: emit_def Let_def styleNames_append split: sum.splits)

lemma checkComboClass_try_styleNames:
  "styleNames (trace (snd (checkComboClass_try el nm w))) = styleNames (trace w)"
  using some_getName_styleNames [of _ nm "emit (Call_getStyles el) w"]
  by (simp add: checkComboClass_try_def displayFeedback_def Let_def styleNames_append split_def
      split: sum.splits collection.splits)
     (simp add: emit_def styleNames_append)

lemma checkComboClass_styleNames:
  "styleNames (trace (snd (checkComboClass host nm w))) = styleNames (trace w)"
  using checkComboClass_try_styleNames [of _ nm "emit Call_getSelectedElement w"]
  by (simp add: checkComboClass_def displayFeedback_def Let_def styleNames_append split_def
      split: sum.splits option.splits)
     (simp add: emit_def styleNames_append)


lemma resume_styleNames: "styleNames (trace (snd (resume t w))) = styleNames (trace w)"
proof (cases t)
  case (Apply_at_selection host styleObject styleName)
  then show ?thesis
    by (simp add: applyStyles_catch_def displayFeedback_def emit_def Let_def styleNames_append
        split: sum.splits option.splits)
next
  case (Apply_at_style_save selectedElement myStyle)
  then show ?thesis
    by (simp add: applyStyles_catch_def displayFeedback_def emit_def Let_def styleNames_append
        split: sum.splits option.splits)
next
  case (Apply_at_element_save selectedElement)
  then show ?thesis
    by (simp add: applyStyles_catch_def displayFeedback_def emit_def styleNames_append
        split: sum.splits)
next
  case (Check_at_selection host comboClassName)
  then show ?thesis
    using checkComboClass_try_styleNames [of _ comboClassName w]
    by (simp add: displayFeedback_def split_def split: sum.splits option.splits)
       (simp add: emit_def styleNames_append)
qed

text \<open>
  Cutting the two functions at their awaits changes nothing when no other handler runs
  in between: resumed to its end, the task a click leaves behind does what the whole call
  does.
\<close>

lemma applyStyles_in_steps:
  "finish 3 (Apply_at_selection host styleObject styleName) (emit Call_getSelectedElement w) =
     Some (applyStyles host styleObject styleName w)"
  by (simp add: numeral_3_eq_3 applyStyles_def applyStyles_try_def applyStyles_catch_def Let_def
      split: sum.splits option.splits)

lemma checkComboClass_in_steps:
  "finish 1 (Check_at_selection host comboClassName) (emit Call_getSelectedElement w) =
     Some (checkComboClass host comboClassName w)"
  by (simp add: checkComboClass_def Let_def split: sum.splits option.splits prod.splits)

lemma serve_options: "fontFamilyOptions (serve t a) = fontFamilyOptions a"
  by (cases t)
     (simp_all add: start_def submit_click_def check_click_def Let_def split_def
        split: option.splits progress.splits)

lemma serve_submit_missing:
  "fontFamilyOptions a = None \<Longrightarrow> serve (Submit inputs host) a = a"
  by (simp add: start_def submit_click_def)

lemma serve_submit_counter:
  "fontFamilyOptions a = Some children \<Longrightarrow>
     styleCounter (serve (Submit inputs host) a) = increment (styleCounter a)"
  by (simp add: start_def submit_click_def Let_def)

lemma serve_check_counter: "styleCounter (serve (Check inputs host) a) = styleCounter a"
  by (simp add: start_def check_click_def Let_def)

lemma serve_settle_counter: "styleCounter (serve (Settle i) a) = styleCounter a"
  by (simp add: split_def split: progress.splits)

lemma serve_submit_styleNames:
  "fontFamilyOptions a = Some children \<Longrightarrow>
     styleNames (trace (page (serve (Submit inputs host) a))) =
       styleNames (trace (page a)) @ [styleName_of (styleCounter a)]"
  by (simp add: start_def submit_click_def Let_def emit_def styleNames_append)

lemma serve_check_styleNames:
  "styleNames (trace (page (serve (Check inputs host) a))) = styleNames (trace (page a))"
  by (simp add: start_def check_click_def Let_def emit_def styleNames_append)

lemma serve_settle_styleNames:
  "styleNames (trace (page (serve (Settle i) a))) = styleNames (trace (page a))"
  using resume_styleNames [of "pending a ! i" "page a"]
  by (simp add: split_def split: progress.splits)

declare serve.simps [simp del]

lemma run_append: "run (ts @ ts') a = run ts' (run ts a)"
  by (induction ts a rule: run.induct) simp_all

lemma count_submits_append: "count_submits (ts @ ts') = count_submits ts + count_submits ts'"
  by (induction ts rule: count_submits.induct) simp_all

lemma run_options: "fontFamilyOptions (run ts a) = fontFamilyOptions a"
  by (induction ts a rule: run.induct) (simp_all add: serve_options)

lemma increment_ge: "n \<le> increment n"
  by (simp add: increment_def)

lemma serve_counter_mono: "styleCounter a \<le> styleCounter (serve t a)"
proof (cases t)
  case (Submit inputs host)
  then show ?thesis
    by (cases "fontFamilyOptions a")
       (simp_all add: serve_submit_missing serve_submit_counter increment_ge)
next
  case (Check inputs host)
  then show ?thesis by (simp add: serve_check_counter)
next
  case (Settle i)
  then show ?thesis by (simp add: serve_settle_counter)
qed

lemma run_counter_mono: "styleCounter a \<le> styleCounter (run ts a)"
proof (induction ts a rule: run.induct)
  case (1 a)
  show ?case by simp
next
  case (2 t ts a)
  have "styleCounter a \<le> styleCounter (serve t a)"
    by (rule serve_counter_mono)
  with 2 show ?case by simp
qed

lemma run_missing:
  "fontFamilyOptions a = None \<Longrightarrow>
     styleCounter (run ts a) = styleCounter a
     \<and> styleNames (trace (page (run ts a))) = styleNames (trace (page a))"
proof (induction ts a rule: run.induct)
  case (1 a)
  show ?case by simp
next
  case (2 t ts a)
  from "2.prems" have "fontFamilyOptions (serve t a) = None"
    by (simp add: serve_options)
  then have later: "styleCounter (run ts (serve t a)) = styleCounter (serve t a)
     \<and> styleNames (trace (page (run ts (serve t a)))) = styleNames (trace (page (serve t a)))"
    by (rule "2.IH")
  from "2.prems" have "styleCounter (serve t a) = styleCounter a
     \<and> styleNames (trace (page (serve t a))) = styleNames (trace (page a))"
    by (cases t)
       (simp_all add: serve_submit_missing serve_check_counter serve_settle_counter
          serve_check_styleNames serve_settle_styleNames)
  with later show ?case by simp
qed

lemma run_counter:
  "fontFamilyOptions a = Some children \<Longrightarrow> styleCounter a + count_submits ts \<le> 2 ^ 53 \<Longrightarrow>
     styleCounter (run ts a) = styleCounter a + count_submits ts"
proof (induction ts a rule: run.induct)
  case (1 a)
  show ?case by simp
next
  case (2 t ts a)
  have options: "fontFamilyOptions (serve t a) = Some children"
    using "2.prems"(1) by (simp add: serve_options)
  show ?case
  proof (cases t)
    case (Submit inputs host)
    with "2.prems" have step: "styleCounter (serve t a) = styleCounter a + 1"
      by (simp add: serve_submit_counter increment_def)
    with "2.prems"(2) Submit have "styleCounter (serve t a) + count_submits ts \<le> 2 ^ 53"
      by simp
    with options have "styleCounter (run ts (serve t a)) = styleCounter (serve t a) + count_submits ts"
      by (rule "2.IH")
    with step Submit show ?thesis by simp
  next
    case (Check inputs host)
    then have step: "styleCounter (serve t a) = styleCounter a"
      by (simp only: serve_check_counter)
    with "2.prems"(2) Check have "styleCounter (serve t a) + count_submits ts \<le> 2 ^ 53"
      by simp
    with options have "styleCounter (run ts (serve t a)) = styleCounter (serve t a) + count_submits ts"
      by (rule "2.IH")
    with step Check show ?thesis by simp
  next
    case (Settle i)
    then have step: "styleCounter (serve t a) = styleCounter a"
      by (simp only: serve_settle_counter)
    with "2.prems"(2) Settle have "styleCounter (serve t a) + count_submits ts \<le> 2 ^ 53"
      by simp
    with options have "styleCounter (run ts (serve t a)) = styleCounter (serve t a) + count_submits ts"
      by (rule "2.IH")
    with step Settle show ?thesis by simp
  qed
qed

lemma run_styleNames:
  "fontFamilyOptions a = Some children \<Longrightarrow> styleCounter a + count_submits ts \<le> 2 ^ 53 + 1 \<Longrightarrow>
     styleNames (trace (page (run ts a))) =
       styleNames (trace (page a)) @
       map styleName_of [styleCounter a ..< styleCounter a + count_submits ts]"
proof (induction ts a rule: run.induct)
  case (1 a)
  show ?case by simp
next
  case (2 t ts a)
  let ?a = "serve t a"
  have options: "fontFamilyOptions ?a = Some children"
    using "2.prems"(1) by (simp add: serve_options)
  show ?case
  proof (cases t)
    case (Submit inputs host)
    have here: "styleNames (trace (page ?a)) =
        styleNames (trace (page a)) @ [styleName_of (styleCounter a)]"
      unfolding Submit using "2.prems"(1) by (rule serve_submit_styleNames)
    have counter: "styleCounter ?a = increment (styleCounter a)"
      unfolding Submit using "2.prems"(1) by (rule serve_submit_counter)
    show ?thesis
    proof (cases "styleCounter a < 2 ^ 53")
      case True
      then have inc: "styleCounter ?a = styleCounter a + 1"
        by (simp add: counter increment_def)
      with "2.prems"(2) Submit have "styleCounter ?a + count_submits ts \<le> 2 ^ 53 + 1"
        by simp
      with options have "styleNames (trace (page (run ts ?a))) =
           styleNames (trace (page ?a)) @
           map styleName_of [styleCounter ?a ..< styleCounter ?a + count_submits ts]"
        by (rule "2.IH")
      moreover have "[styleCounter a ..< styleCounter a + Suc (count_submits ts)] =
          styleCounter a # [styleCounter a + 1 ..< styleCounter a + 1 + count_submits ts]"
        by (simp add: upt_conv_Cons del: upt_Suc)
      ultimately show ?thesis
        unfolding Submit by (simp add: inc [unfolded Submit] here [unfolded Submit] del: upt_Suc)
    next
      case False
      with "2.prems"(2) Submit have none: "count_submits ts = 0"
        by simp
      with "2.prems"(2) False counter have "styleCounter ?a + count_submits ts \<le> 2 ^ 53 + 1"
        by (simp add: increment_def)
      with options have "styleNames (trace (page (run ts ?a))) =
           styleNames (trace (page ?a)) @
           map styleName_of [styleCounter ?a ..< styleCounter ?a + count_submits ts]"
        by (rule "2.IH")
      then show ?thesis
        unfolding Submit by (simp add: none here [unfolded Submit])
    qed
  next
    case (Check inputs host)
    have same: "styleCounter ?a = styleCounter a"
      "styleNames (trace (page ?a)) = styleNames (trace (page a))"
      unfolding Check by (rule serve_check_counter, rule serve_check_styleNames)
    with "2.prems"(2) Check have "styleCounter ?a + count_submits ts \<le> 2 ^ 53 + 1"
      by simp
    with options have "styleNames (trace (page (run ts ?a))) =
         styleNames (trace (page ?a)) @
         map styleName_of [styleCounter ?a ..< styleCounter ?a + count_submits ts]"
      by (rule "2.IH")
    then show ?thesis
      unfolding Check by (simp add: same [unfolded Check])
  next
    case (Settle i)
    have same: "styleCounter ?a = styleCounter a"
      "styleNames (trace (page ?a)) = styleNames (trace (page a))"
      unfolding Settle by (rule serve_settle_counter, rule serve_settle_styleNames)
    with "2.prems"(2) Settle have "styleCounter ?a + count_submits ts \<le> 2 ^ 53 + 1"
      by simp
    with options have "styleNames (trace (page (run ts ?a))) =
         styleNames (trace (page ?a)) @
         map styleName_of [styleCounter ?a ..< styleCounter ?a + count_submits ts]"
      by (rule "2.IH")
    then show ?thesis
      unfolding Settle by (simp add: same [unfolded Settle])
  qed
qed

lemma distinct_styleNames: "distinct (map styleName_of [m ..< n])"
  by (simp add: distinct_map inj_on_def styleName_of_inj)


lemma sublist_error_message: "sublist (error_message e) (pre @ error_toString e)"
proof -
  have "pre @ error_toString e =
          (pre @ (if error_name e = [] \<or> error_message e = [] then [] else error_name e @ '': ''))
          @ error_message e @ (if error_name e \<noteq> [] \<and> error_message e = [] then error_name e else [])"
    by (simp add: error_toString_def)
  then show ?thesis
    unfolding sublist_def by blast
qed

subsection \<open>\<open>applyStyles\<close>\<close>

text \<open>
  Claim C3. When the host returns a selected element that has the property \<open>styles\<close>
  and every host call succeeds, \<open>applyStyles\<close> creates one style under the given name,
  gives it the whole style object, saves it, sets the element's styles to the list of
  that one style, saves the element and reports success once, in this order and with
  nothing else; the promise resolves.
\<close>

theorem applyStyles_success:
  assumes "getSelectedElement host = Inr (Some selectedElement)"
    and "styles selectedElement = Some sts"
    and "createStyle host styleName = Inr myStyle"
    and "setProperties myStyle = Inr ()"
    and "style_save myStyle = Inr ()"
    and "setStyles selectedElement = Inr ()"
    and "element_save selectedElement = Inr ()"
  shows "applyStyles host styleObject styleName w =
           (Inr (), \<lparr>textContent = ''Styles successfully applied!'', color = ''green'',
                     trace = trace w @
                       [Call_getSelectedElement,
                        Call_createStyle styleName,
                        Call_setProperties myStyle styleObject,
                        Call_style_save myStyle,
                        Read_styles selectedElement,
                        Call_setStyles selectedElement [myStyle],
                        Call_element_save selectedElement,
                        Feedback ''Styles successfully applied!'' Success]\<rparr>)"
  using assms by (simp add: apply_defs)

theorem applyStyles_success_witness:
  "applyStyles (host_selecting (Some styled_element)) red_arial ''dynamicStyle0'' blank =
     (Inr (), \<lparr>textContent = ''Styles successfully applied!'', color = ''green'',
               trace =
                 [Call_getSelectedElement,
                  Call_createStyle ''dynamicStyle0'',
                  Call_setProperties (new_style ''dynamicStyle0'')
                    [(''font-size'', ''16px''), (''color'', ''#FF0000''), (''font-family'', ''Arial'')],
                  Call_style_save (new_style ''dynamicStyle0''),
                  Read_styles styled_element,
                  Call_setStyles styled_element [new_style ''dynamicStyle0''],
                  Call_element_save styled_element,
                  Feedback ''Styles successfully applied!'' Success]\<rparr>)"
  using applyStyles_success [where host = "host_selecting (Some styled_element)"
      and selectedElement = styled_element and sts = "[new_style ''hero'']"
      and styleName = "''dynamicStyle0''" and myStyle = "new_style ''dynamicStyle0''"
      and styleObject = red_arial and w = blank]
  by (simp add: host_selecting_def styled_element_def new_style_def red_arial_def blank_def)

text \<open>
  Claim C4. When the host reports that nothing is selected, \<open>applyStyles\<close> makes no
  further host call (no style is created, nothing is saved), reports exactly one
  feedback, of the error kind, and its promise resolves: an early exit, not a fault.
\<close>

theorem applyStyles_no_selection:
  assumes "getSelectedElement host = Inr None"
  shows "applyStyles host styleObject styleName w =
           (Inr (), \<lparr>textContent = ''No element is currently selected.'', color = ''red'',
                     trace = trace w @ [Call_getSelectedElement,
                                        Feedback ''No element is currently selected.'' Error]\<rparr>)"
  using assms by (simp add: apply_defs)

theorem applyStyles_no_selection_witness:
  "applyStyles (host_selecting None) red_arial ''dynamicStyle0'' blank =
     (Inr (), \<lparr>textContent = ''No element is currently selected.'', color = ''red'',
               trace = [Call_getSelectedElement,
                        Feedback ''No element is currently selected.'' Error]\<rparr>)"
  using applyStyles_no_selection [where host = "host_selecting None"
      and styleObject = red_arial and styleName = "''dynamicStyle0''" and w = blank]
  by (simp add: host_selecting_def blank_def)

text \<open>
  Claim C6. With an element selected, when a host call inside the \<open>try\<close> block fails
  with \<open>e\<close> (creating the style, setting its properties, saving it, attaching it to
  the element or saving the element), the error is caught: the promise resolves, exactly
  one feedback is reported, of the error kind, the feedback region then shows its text in
  red, the text contains the message of \<open>e\<close>, and no host call is made twice.
\<close>

theorem applyStyles_host_failure:
  assumes sel: "getSelectedElement host = Inr (Some selectedElement)"
    and fail: "createStyle host styleName = Inl e
       \<or> (createStyle host styleName = Inr myStyle
          \<and> (setProperties myStyle = Inl e
             \<or> (setProperties myStyle = Inr ()
                \<and> (style_save myStyle = Inl e
                   \<or> (style_save myStyle = Inr () \<and> styles selectedElement = Some sts
                      \<and> (setStyles selectedElement = Inl e
                         \<or> (setStyles selectedElement = Inr ()
                            \<and> element_save selectedElement = Inl e)))))))"
  shows "fst (applyStyles host styleObject styleName w) = Inr ()
       \<and> feedbacks (added w (snd (applyStyles host styleObject styleName w))) =
            [(''Error applying styles: '' @ error_toString e, Error)]
       \<and> sublist (error_message e) (''Error applying styles: '' @ error_toString e)
       \<and> distinct (added w (snd (applyStyles host styleObject styleName w)))
       \<and> textContent (snd (applyStyles host styleObject styleName w)) =
            ''Error applying styles: '' @ error_toString e
       \<and> color (snd (applyStyles host styleObject styleName w)) = ''red''
       \<and> last (trace (snd (applyStyles host styleObject styleName w))) =
            Feedback (''Error applying styles: '' @ error_toString e) Error"
proof -
  have msg: "sublist (error_message e) (''Error applying styles: '' @ error_toString e)"
    by (rule sublist_error_message)
  from fail consider
      (create) "createStyle host styleName = Inl e"
    | (props) "createStyle host styleName = Inr myStyle" "setProperties myStyle = Inl e"
    | (save) "createStyle host styleName = Inr myStyle" "setProperties myStyle = Inr ()"
        "style_save myStyle = Inl e"
    | (attach) "createStyle host styleName = Inr myStyle" "setProperties myStyle = Inr ()"
        "style_save myStyle = Inr ()" "styles selectedElement = Some sts"
        "setStyles selectedElement = Inl e"
    | (persist) "createStyle host styleName = Inr myStyle" "setProperties myStyle = Inr ()"
        "style_save myStyle = Inr ()" "styles selectedElement = Some sts"
        "setStyles selectedElement = Inr ()" "element_save selectedElement = Inl e"
    by blast
  then have "fst (applyStyles host styleObject styleName w) = Inr ()
       \<and> feedbacks (added w (snd (applyStyles host styleObject styleName w))) =
            [(''Error applying styles: '' @ error_toString e, Error)]
       \<and> distinct (added w (snd (applyStyles host styleObject styleName w)))
       \<and> textContent (snd (applyStyles host styleObject styleName w)) =
            ''Error applying styles: '' @ error_toString e
       \<and> color (snd (applyStyles host styleObject styleName w)) = ''red''
       \<and> last (trace (snd (applyStyles host styleObject styleName w))) =
            Feedback (''Error applying styles: '' @ error_toString e) Error"
  proof cases
    case create
    with sel show ?thesis by (simp add: apply_defs added_def)
  next
    case props
    with sel show ?thesis by (simp add: apply_defs added_def)
  next
    case save
    with sel show ?thesis by (simp add: apply_defs added_def)
  next
    case attach
    with sel show ?thesis by (simp add: apply_defs added_def)
  next
    case persist
    with sel show ?thesis by (simp add: apply_defs added_def)
  qed
  with msg show ?thesis by simp
qed

theorem applyStyles_host_failure_witness:
  "fst (applyStyles host_quota red_arial ''dynamicStyle0'' blank) = Inr ()
   \<and> feedbacks (added blank (snd (applyStyles host_quota red_arial ''dynamicStyle0'' blank))) =
        [(''Error applying styles: Error: quota exceeded'', Error)]
   \<and> sublist ''quota exceeded'' ''Error applying styles: Error: quota exceeded''
   \<and> distinct (added blank (snd (applyStyles host_quota red_arial ''dynamicStyle0'' blank)))
   \<and> textContent (snd (applyStyles host_quota red_arial ''dynamicStyle0'' blank)) =
        ''Error applying styles: Error: quota exceeded''
   \<and> color (snd (applyStyles host_quota red_arial ''dynamicStyle0'' blank)) = ''red''
   \<and> last (trace (snd (applyStyles host_quota red_arial ''dynamicStyle0'' blank))) =
        Feedback ''Error applying styles: Error: quota exceeded'' Error"
  using applyStyles_host_failure [where host = host_quota and selectedElement = styled_element
      and styleName = "''dynamicStyle0''" and e = quota_exceeded and myStyle = unsaved_style
      and sts = "[new_style ''hero'']" and styleObject = red_arial and w = blank]
  by (simp add: host_quota_def unsaved_style_def styled_element_def quota_exceeded_def
      error_toString_def)

text \<open>
  Claim C7. With an element selected that has no property \<open>styles\<close>, and the style
  created and saved without failure, \<open>applyStyles\<close> resolves without any feedback:
  text and colour of the feedback region stay as they were, and the element is neither
  given the style nor saved.
\<close>

theorem applyStyles_unsupported:
  assumes "getSelectedElement host = Inr (Some selectedElement)"
    and "styles selectedElement = None"
    and "createStyle host styleName = Inr myStyle"
    and "setProperties myStyle = Inr ()"
    and "style_save myStyle = Inr ()"
  shows "applyStyles host styleObject styleName w =
           (Inr (), w\<lparr>trace := trace w @
                       [Call_getSelectedElement,
                        Call_createStyle styleName,
                        Call_setProperties myStyle styleObject,
                        Call_style_save myStyle,
                        Read_styles selectedElement]\<rparr>)"
  using assms by (simp add: apply_defs)

theorem applyStyles_unsupported_witness:
  "applyStyles (host_selecting (Some plain_element)) red_arial ''dynamicStyle0'' blank =
     (Inr (), \<lparr>textContent = [], color = [],
               trace =
                 [Call_getSelectedElement,
                  Call_createStyle ''dynamicStyle0'',
                  Call_setProperties (new_style ''dynamicStyle0'') red_arial,
                  Call_style_save (new_style ''dynamicStyle0''),
                  Read_styles plain_element]\<rparr>)"
  using applyStyles_unsupported [where host = "host_selecting (Some plain_element)"
      and selectedElement = plain_element
      and styleName = "''dynamicStyle0''" and myStyle = "new_style ''dynamicStyle0''"
      and styleObject = red_arial and w = blank]
  by (simp add: host_selecting_def plain_element_def new_style_def blank_def)

text \<open>
  Claim C10. With an element selected and the style created and saved without failure,
  the log of \<open>applyStyles\<close> starts with: the style is created, given the style object
  and saved, and only then is the property \<open>styles\<close> of the element read. When the
  element has no such property the log ends there: the saved style stays in the host,
  attached to nothing, and the element has not been touched.
\<close>

theorem applyStyles_saves_first:
  assumes "getSelectedElement host = Inr (Some selectedElement)"
    and "createStyle host styleName = Inr myStyle"
    and "setProperties myStyle = Inr ()"
    and "style_save myStyle = Inr ()"
  shows "prefix [Call_getSelectedElement,
                 Call_createStyle styleName,
                 Call_setProperties myStyle styleObject,
                 Call_style_save myStyle,
                 Read_styles selectedElement]
           (added w (snd (applyStyles host styleObject styleName w)))
          \<and> (styles selectedElement = None \<longrightarrow>
               added w (snd (applyStyles host styleObject styleName w)) =
                 [Call_getSelectedElement,
                  Call_createStyle styleName,
                  Call_setProperties myStyle styleObject,
                  Call_style_save myStyle,
                  Read_styles selectedElement])"
  using assms
  by (cases "styles selectedElement"; cases "setStyles selectedElement";
      cases "element_save selectedElement")
     (simp_all add: apply_defs Let_def added_def)

theorem applyStyles_saves_first_witness:
  "prefix [Call_getSelectedElement,
           Call_createStyle ''dynamicStyle7'',
           Call_setProperties (new_style ''dynamicStyle7'') red_arial,
           Call_style_save (new_style ''dynamicStyle7''),
           Read_styles plain_element]
     (added blank (snd (applyStyles (host_selecting (Some plain_element)) red_arial
                          ''dynamicStyle7'' blank)))
   \<and> added blank (snd (applyStyles (host_selecting (Some plain_element)) red_arial
                          ''dynamicStyle7'' blank)) =
        [Call_getSelectedElement,
         Call_createStyle ''dynamicStyle7'',
         Call_setProperties (new_style ''dynamicStyle7'') red_arial,
         Call_style_save (new_style ''dynamicStyle7''),
         Read_styles plain_element]"
  using applyStyles_saves_first [where host = "host_selecting (Some plain_element)"
      and selectedElement = plain_element
      and styleName = "''dynamicStyle7''" and myStyle = "new_style ''dynamicStyle7''"
      and styleObject = red_arial and w = blank]
  by (simp add: host_selecting_def plain_element_def new_style_def)

subsection \<open>\<open>checkComboClass\<close>\<close>

lemma some_getName_feedbacks:
  "feedbacks (trace (snd (some_getName sts nm w))) = feedbacks (trace w)"
  by (induction sts nm w rule: some_getName.induct)
     (simp_all add: emit_def Let_def feedbacks_append split: sum.splits)

lemma some_getName_found:
  "map getName sts = map Inr names \<Longrightarrow> fst (some_getName sts nm w) = Inr (nm \<in> set names)"
proof (induction sts nm w arbitrary: names rule: some_getName.induct)
  case (1 comboClassName w)
  then show ?case by simp
next
  case (2 st sts comboClassName w)
  from "2.prems" obtain n ns where names: "names = n # ns" and st: "getName st = Inr n"
    and rest: "map getName sts = map Inr ns"
    by (cases names) auto
  show ?case
  proof (cases "n = comboClassName")
    case True
    with names st show ?thesis by (simp add: Let_def)
  next
    case False
    with "2.IH" [OF refl st False rest] names st show ?thesis
      by (auto simp add: Let_def)
  qed
qed

text \<open>
  When \<open>getStyles()\<close> hands back the array itself and every \<open>getName()\<close> succeeds, the
  check is the one the documentation describes: one feedback, success exactly when some
  style of the element carries the name.
\<close>

lemma checkComboClass_Array:
  assumes "getSelectedElement host = Inr (Some selectedElement)"
    and "getStyles selectedElement = Inr (Array sts)"
    and "map getName sts = map Inr names"
  shows "fst (checkComboClass host comboClassName w) = Inr ()
       \<and> feedbacks (trace (snd (checkComboClass host comboClassName w))) =
           feedbacks (trace w) @
           [if comboClassName \<in> set names
            then (''Combo class '' @ quote comboClassName @ '' exists.'', Success)
            else (''Combo class '' @ quote comboClassName @ '' does not exist.'', Error)]"
proof -
  let ?w = "emit (Call_getStyles selectedElement) (emit Call_getSelectedElement w)"
  have found: "fst (some_getName sts comboClassName ?w) = Inr (comboClassName \<in> set names)"
    using assms(3) by (rule some_getName_found)
  have quiet: "feedbacks (trace (snd (some_getName sts comboClassName ?w))) = feedbacks (trace w)"
    by (simp add: some_getName_feedbacks) (simp add: emit_def feedbacks_append)
  show ?thesis
    using assms(1,2) found quiet
    by (cases "some_getName sts comboClassName ?w")
       (simp add: checkComboClass_def checkComboClass_try_def Let_def displayFeedback_def
          feedbacks_append emit_def)
qed

text \<open>
  Claim C1. The claim has the check search the resolved style collection of the selected
  element and report success when a style carries the name. At the input below the host
  returns a promise from \<open>getStyles()\<close>, as the interface \<open>Element\<close> of the source
  declares, and the promise would settle with a style named \<open>hero\<close>. The source calls
  \<open>some\<close> on the promise itself: the one feedback is of the error kind and its text
  is that of the \<open>TypeError\<close>, which does not contain the name asked for.
\<close>

theorem checkComboClass_unawaited:
  "checkComboClass (host_selecting (Some styled_element)) ''hero'' blank =
     (Inr (),
      \<lparr>textContent = ''Error checking for combo class: TypeError: styles.some is not a function'',
       color = ''red'',
       trace =
         [Call_getSelectedElement,
          Call_getStyles styled_element,
          Feedback ''Error checking for combo class: TypeError: styles.some is not a function''
            Error]\<rparr>)
   \<and> getStyles styled_element = Inr (Promise (Inr [new_style ''hero'']))
   \<and> getName (new_style ''hero'') = Inr ''hero''
   \<and> \<not> sublist ''hero''
         ''Error checking for combo class: TypeError: styles.some is not a function''"
  by (simp add: checkComboClass_def checkComboClass_try_def host_selecting_def styled_element_def
      new_style_def blank_def emit_def displayFeedback_def not_a_function_def error_toString_def
      sublist_Cons_right)

subsection \<open>The font list\<close>

lemma foldl_append_options:
  "foldl (\<lambda>dropdown font.
            (let opt = createOption font
             in (case dropdown of None \<Rightarrow> None | Some children \<Rightarrow> Some (children @ [opt]))))
     (Some children) fs = Some (children @ map createOption fs)"
  by (induction fs arbitrary: children) simp_all

text \<open>
  Claim C8. The font list is the six names Arial, Verdana, Helvetica, Times New Roman,
  Georgia, Courier New, in this order, and populating the dropdown appends one option
  for each of them, in this order, with the name as value and as label.
\<close>

theorem populateFontFamilyDropdown_options:
  "fonts = [''Arial'', ''Verdana'', ''Helvetica'', ''Times New Roman'', ''Georgia'', ''Courier New'']
   \<and> length fonts = 6
   \<and> populateFontFamilyDropdown (Some children) =
       Some (children @
         [\<lparr>option_value = ''Arial'', option_textContent = ''Arial''\<rparr>,
          \<lparr>option_value = ''Verdana'', option_textContent = ''Verdana''\<rparr>,
          \<lparr>option_value = ''Helvetica'', option_textContent = ''Helvetica''\<rparr>,
          \<lparr>option_value = ''Times New Roman'', option_textContent = ''Times New Roman''\<rparr>,
          \<lparr>option_value = ''Georgia'', option_textContent = ''Georgia''\<rparr>,
          \<lparr>option_value = ''Courier New'', option_textContent = ''Courier New''\<rparr>])
   \<and> populateFontFamilyDropdown None = None
   \<and> fontFamilyOptions (DOMContentLoaded (Some children) w) =
       Some (children @ map createOption fonts)
   \<and> map option_value (map createOption fonts) = fonts
   \<and> map option_textContent (map createOption fonts) = fonts"
proof -
  have "populateFontFamilyDropdown (Some children) = Some (children @ map createOption fonts)"
    unfolding populateFontFamilyDropdown_def by (rule foldl_append_options)
  moreover have "populateFontFamilyDropdown None = None"
    by (simp add: populateFontFamilyDropdown_def fonts_def)
  ultimately show ?thesis
    by (simp add: DOMContentLoaded_def) (simp add: fonts_def createOption_def)
qed

subsection \<open>The style counter\<close>

lemma boot_options:
  "fontFamilyOptions (DOMContentLoaded (Some children) w) = Some (children @ map createOption fonts)"
proof -
  have "populateFontFamilyDropdown (Some children) = Some (children @ map createOption fonts)"
    unfolding populateFontFamilyDropdown_def by (rule foldl_append_options)
  then show ?thesis
    by (simp add: DOMContentLoaded_def)
qed

lemma boot_missing: "fontFamilyOptions (DOMContentLoaded None w) = None"
  by (simp add: DOMContentLoaded_def populateFontFamilyDropdown_def fonts_def)

lemma serve_submit_pending:
  "fontFamilyOptions a = Some children \<Longrightarrow>
     pending (serve (Submit inputs host) a) =
       pending a @
       [Apply_at_selection host
          [(''font-size'', fontSizeDropdown_value inputs),
           (''color'', getFontColorValue inputs),
           (''font-family'', fontFamilyDropdown_value inputs)]
          (styleName_of (styleCounter a))]"
  by (simp add: serve.simps start_def submit_click_def Let_def)

text \<open>
  Claim C2, as the code has it. On a page that has the family dropdown the counter is 0
  after start-up and every click on the submit button steps it once, at the click itself:
  when the click has been served the counter is stepped and the handler waits at
  \<open>getSelectedElement()\<close>, so the step does not depend on whether \<open>applyStyles\<close> then
  succeeds, fails or exits early. Clicks on the check button and the progress of waiting
  handlers leave the counter alone. So after a session with \<open>k\<close> submit clicks, handlers
  overlapping or not (\<open>k\<close> within the range in which a JavaScript number counts exactly),
  the counter is \<open>k\<close>, the names generated so far are \<open>dynamicStyle0\<close> to
  \<open>dynamicStyle(k-1)\<close> and the next submit click generates \<open>dynamicStyle\<close> followed by
  the decimal digits of \<open>k\<close>. On a page without the family dropdown the handler throws
  where it reads the family, before it reaches the counter, and the counter stays 0.
\<close>

theorem styleCounter_counts_submits:
  assumes "count_submits ts \<le> 2 ^ 53"
  shows "styleCounter (DOMContentLoaded (Some children) w) = 0
       \<and> styleCounter (run ts (DOMContentLoaded (Some children) w)) = count_submits ts
       \<and> styleCounter (serve (Submit inputs host) (run ts (DOMContentLoaded (Some children) w))) =
           increment (count_submits ts)
       \<and> pending (serve (Submit inputs host) (run ts (DOMContentLoaded (Some children) w))) =
           pending (run ts (DOMContentLoaded (Some children) w)) @
           [Apply_at_selection host
              [(''font-size'', fontSizeDropdown_value inputs),
               (''color'', getFontColorValue inputs),
               (''font-family'', fontFamilyDropdown_value inputs)]
              (''dynamicStyle'' @ number_toString (count_submits ts))]
       \<and> styleNames (trace (page (run (ts @ [Submit inputs host])
             (DOMContentLoaded (Some children) w)))) =
           map styleName_of [0 ..< count_submits ts] @
           [''dynamicStyle'' @ number_toString (count_submits ts)]
       \<and> styleCounter (run ts (DOMContentLoaded None w)) = 0"
proof -
  let ?boot = "DOMContentLoaded (Some children) w"
  have "styleCounter (run ts (DOMContentLoaded None w)) = styleCounter (DOMContentLoaded None w)"
    using boot_missing [of w] by (simp add: run_missing)
  then have missing: "styleCounter (run ts (DOMContentLoaded None w)) = 0"
    by (simp add: DOMContentLoaded_def)
  have zero: "styleCounter ?boot = 0" and empty: "trace (page ?boot) = []"
    by (simp_all add: DOMContentLoaded_def)
  have options: "fontFamilyOptions ?boot = Some (children @ map createOption fonts)"
    by (rule boot_options)
  then have later: "fontFamilyOptions (run ts ?boot) = Some (children @ map createOption fonts)"
    by (simp add: run_options)
  from assms zero have "styleCounter ?boot + count_submits ts \<le> 2 ^ 53"
    by simp
  with options have "styleCounter (run ts ?boot) = styleCounter ?boot + count_submits ts"
    by (rule run_counter)
  with zero have counter: "styleCounter (run ts ?boot) = count_submits ts"
    by simp
  from later have stepped: "styleCounter (serve (Submit inputs host) (run ts ?boot)) =
      increment (count_submits ts)"
    by (simp add: serve_submit_counter counter)
  from later have waits: "pending (serve (Submit inputs host) (run ts ?boot)) =
      pending (run ts ?boot) @
      [Apply_at_selection host
         [(''font-size'', fontSizeDropdown_value inputs),
          (''color'', getFontColorValue inputs),
          (''font-family'', fontFamilyDropdown_value inputs)]
         (''dynamicStyle'' @ number_toString (count_submits ts))]"
    by (simp add: serve_submit_pending counter styleName_of_def)
  from assms zero have "styleCounter ?boot + count_submits (ts @ [Submit inputs host]) \<le> 2 ^ 53 + 1"
    by (simp add: count_submits_append)
  with options have "styleNames (trace (page (run (ts @ [Submit inputs host]) ?boot))) =
      styleNames (trace (page ?boot)) @
      map styleName_of
        [styleCounter ?boot ..< styleCounter ?boot + count_submits (ts @ [Submit inputs host])]"
    by (rule run_styleNames)
  then have names: "styleNames (trace (page (run (ts @ [Submit inputs host]) ?boot))) =
      map styleName_of [0 ..< count_submits ts] @ [''dynamicStyle'' @ number_toString (count_submits ts)]"
    by (simp add: zero empty count_submits_append styleName_of_def)
  from zero counter stepped waits names missing show ?thesis
    by (simp only: simp_thms)
qed

theorem styleCounter_counts_submits_witness:
  "count_submits overlapping \<le> 2 ^ 53
   \<and> styleCounter (run overlapping (DOMContentLoaded (Some []) blank)) = 2
   \<and> styleCounter (serve (Submit picked (host_selecting None))
        (run overlapping (DOMContentLoaded (Some []) blank))) = 3
   \<and> styleNames (trace (page (run (overlapping @ [Submit picked (host_selecting None)])
        (DOMContentLoaded (Some []) blank)))) = [''dynamicStyle0'', ''dynamicStyle1'', ''dynamicStyle2'']"
proof -
  have two: "count_submits overlapping = 2"
    by (simp add: overlapping_def)
  then have small: "count_submits overlapping \<le> 2 ^ 53"
    by simp
  have names: "map styleName_of [0 ..< 2] = [''dynamicStyle0'', ''dynamicStyle1'']"
    by (simp add: upt_rec styleName_of_def number_toString.simps digit_def)
  have last: "number_toString 2 = ''2''"
    by (simp add: number_toString.simps digit_def)
  show ?thesis
    using small
      styleCounter_counts_submits [OF small, of "[]" blank picked "host_selecting None"]
    by (simp add: two names last increment_def)
qed

text \<open>
  The claim as the specification words it ties the counter to the successful applies.
  One submit click with nothing selected, served to its end, is an early exit: the handler
  has finished, no apply has succeeded, and yet the counter is 1 and the next name is
  \<open>dynamicStyle1\<close>, not \<open>dynamicStyle0\<close>.
\<close>

theorem styleCounter_counts_failed_click:
  "pending (run the_round (DOMContentLoaded (Some []) blank)) = []
   \<and> feedbacks (trace (page (run the_round (DOMContentLoaded (Some []) blank)))) =
       [(''No element is currently selected.'', Error)]
   \<and> successful_applies (trace (page (run the_round (DOMContentLoaded (Some []) blank)))) = 0
   \<and> styleCounter (run the_round (DOMContentLoaded (Some []) blank)) = 1
   \<and> styleName_of (styleCounter (run the_round (DOMContentLoaded (Some []) blank))) =
      ''dynamicStyle1''
   \<and> styleName_of (styleCounter (run the_round (DOMContentLoaded (Some []) blank))) \<noteq>
      ''dynamicStyle'' @ number_toString
        (successful_applies (trace (page (run the_round (DOMContentLoaded (Some []) blank)))))"
  by (simp add: the_round_def serve.simps start_def submit_click_def DOMContentLoaded_def
      populateFontFamilyDropdown_def fonts_def emit_def displayFeedback_def host_selecting_def
      blank_def successful_applies_def increment_def styleName_of_def number_toString.simps
      digit_def Let_def)

text \<open>
  Claim C9. In a session the counter never decreases: at any later moment it is at least
  what it was. The names generated in a session are pairwise different, whether the
  handlers of the clicks overlap or not, for every session of up to \<open>2^53 + 1\<close> submit
  clicks, the range in which the JavaScript number that holds the counter still steps.
\<close>

theorem styleCounter_never_repeats:
  "styleCounter (run ts (DOMContentLoaded dropdown w)) \<le>
     styleCounter (run (ts @ ts') (DOMContentLoaded dropdown w))
   \<and> (count_submits ts \<le> 2 ^ 53 + 1 \<longrightarrow>
        distinct (styleNames (trace (page (run ts (DOMContentLoaded dropdown w))))))"
proof -
  let ?boot = "DOMContentLoaded dropdown w"
  have mono: "styleCounter (run ts ?boot) \<le> styleCounter (run (ts @ ts') ?boot)"
    by (simp add: run_append run_counter_mono)
  have zero: "styleCounter ?boot = 0" and empty: "trace (page ?boot) = []"
    by (simp_all add: DOMContentLoaded_def)
  have "distinct (styleNames (trace (page (run ts ?boot))))" if "count_submits ts \<le> 2 ^ 53 + 1"
  proof (cases dropdown)
    case None
    then have "fontFamilyOptions ?boot = None"
      by (simp add: boot_missing)
    then have "styleNames (trace (page (run ts ?boot))) = styleNames (trace (page ?boot))"
      by (simp add: run_missing)
    then show ?thesis
      by (simp add: empty)
  next
    case (Some children)
    then have options: "fontFamilyOptions ?boot = Some (children @ map createOption fonts)"
      by (simp add: boot_options)
    from that zero have "styleCounter ?boot + count_submits ts \<le> 2 ^ 53 + 1"
      by simp
    with options have "styleNames (trace (page (run ts ?boot))) =
        styleNames (trace (page ?boot)) @
        map styleName_of [styleCounter ?boot ..< styleCounter ?boot + count_submits ts]"
      by (rule run_styleNames)
    then show ?thesis
      by (simp add: zero empty distinct_styleNames)
  qed
  with mono show ?thesis by simp
qed

theorem styleCounter_never_repeats_witness:
  "styleCounter (run (take 2 overlapping) (DOMContentLoaded (Some []) blank)) \<le>
     styleCounter (run overlapping (DOMContentLoaded (Some []) blank))
   \<and> count_submits overlapping \<le> 2 ^ 53 + 1
   \<and> distinct (styleNames (trace (page (run overlapping (DOMContentLoaded (Some []) blank)))))"
  using
    styleCounter_never_repeats [of "take 2 overlapping" "Some []" blank "drop 2 overlapping"]
    styleCounter_never_repeats [of overlapping "Some []" blank "[]"]
  by (simp add: overlapping_def)

text \<open>
  Past \<open>2^53\<close> the counter no longer steps, and the claim as the specification words
  it, for sessions of any length, fails there: in a session of \<open>2^53 + 2\<close> submit clicks
  on a page with the family dropdown, each served to its end before the next, the last two
  clicks both generate \<open>dynamicStyle9007199254740992\<close>.
\<close>

theorem styleCounter_repeats_past_2_53:
  "\<not> distinct (styleNames (trace (page
        (run (concat (replicate 9007199254740994 the_round))
           (DOMContentLoaded (Some []) blank)))))"
proof -
  let ?boot = "DOMContentLoaded (Some []) blank"
  let ?long = "concat (replicate 9007199254740992 the_round)"
  have zero: "styleCounter ?boot = 0"
    by (simp add: DOMContentLoaded_def)
  have options: "fontFamilyOptions ?boot = Some ([] @ map createOption fonts)"
    by (rule boot_options)
  have count: "count_submits (concat (replicate n the_round)) = n" for n
    by (induction n) (simp_all add: count_submits_append the_round_def)
  have round: "styleCounter (run the_round a) = increment (styleCounter a)
      \<and> styleNames (trace (page (run the_round a))) =
          styleNames (trace (page a)) @ [styleName_of (styleCounter a)]"
    if "fontFamilyOptions a = Some children" for a children
    using that
    by (simp add: the_round_def serve_settle_counter serve_settle_styleNames
        serve_submit_counter serve_submit_styleNames)
  have "styleCounter ?boot + count_submits ?long \<le> 2 ^ 53"
    by (simp add: zero count)
  with options have "styleCounter (run ?long ?boot) = styleCounter ?boot + count_submits ?long"
    by (rule run_counter)
  then have at_limit: "styleCounter (run ?long ?boot) = 9007199254740992"
    by (simp add: zero count)
  have options1: "fontFamilyOptions (run ?long ?boot) = Some ([] @ map createOption fonts)"
    using options by (simp only: run_options)
  have options2: "fontFamilyOptions (run (?long @ the_round) ?boot) = Some ([] @ map createOption fonts)"
    using options by (simp only: run_options)
  have first: "styleCounter (run the_round (run ?long ?boot)) = increment 9007199254740992
      \<and> styleNames (trace (page (run the_round (run ?long ?boot)))) =
          styleNames (trace (page (run ?long ?boot))) @ [styleName_of 9007199254740992]"
    using round [OF options1] by (simp only: at_limit)
  then have stuck: "styleCounter (run (?long @ the_round) ?boot) = 9007199254740992"
    by (simp add: run_append increment_def)
  have second: "styleNames (trace (page (run the_round (run (?long @ the_round) ?boot)))) =
      styleNames (trace (page (run (?long @ the_round) ?boot))) @ [styleName_of 9007199254740992]"
    using round [OF options2] by (simp only: stuck)
  from first second have twice: "\<not> distinct
      (styleNames (trace (page (run ((?long @ the_round) @ the_round) ?boot))))"
    by (simp add: run_append)
  have two_more: "(concat (replicate n the_round) @ the_round) @ the_round =
      concat (replicate (n + 2) the_round)" for n
    by (induction n) simp_all
  have "(?long @ the_round) @ the_round = concat (replicate 9007199254740994 the_round)"
    using two_more [of 9007199254740992] by simp
  with twice show ?thesis
    by simp
qed

end
